theory Spec2Isabelle
  imports Complex_Main
begin

section \<open>Python values and built-ins used by the runners\<close>

text \<open>
  A Python \<open>str\<close> is a \<^typ>\<open>string\<close>, one \<^typ>\<open>char\<close> per code point (code points
  below 256). Python floats are modelled by exact rationals: the runners only add a few
  confidences, divide by their number and scale a time difference, and no claim below is
  about rounding.
\<close>

datatype json =
    JNull
  | JBool bool
  | JInt int
  | JFloat rat
  | JStr string
  | JArr "json list"
  | JObj "(string \<times> json) list"

text \<open>
  An exception is its class name (\<open>type(e).__name__\<close>) and its message (\<open>str(e)\<close>).
\<close>

datatype exn = Exn (exn_type: string) (exn_str: string)

definition ValueError :: "string \<Rightarrow> exn" where
  "ValueError m = Exn ''ValueError'' m"

text \<open>\<open>d[key]\<close> on a dict whose key may be absent; \<open>str(KeyError('k'))\<close> is \<open>'k'\<close>.\<close>

definition getitem :: "'a option \<Rightarrow> string \<Rightarrow> exn + 'a" where
  "getitem v key =
     (case v of
        None \<Rightarrow> Inl (Exn ''KeyError'' ([CHR 0x27] @ key @ [CHR 0x27]))
      | Some x \<Rightarrow> Inr x)"

text \<open>Truthiness of an optional string: \<open>None\<close> and \<open>''\<close> are falsy.\<close>

definition truthy :: "string option \<Rightarrow> bool" where
  "truthy v = (case v of None \<Rightarrow> False | Some s \<Rightarrow> s \<noteq> [])"

text \<open>\<open>a or b\<close> on optional strings.\<close>

definition py_or :: "string option \<Rightarrow> string option \<Rightarrow> string option" where
  "py_or a b = (if truthy a then a else b)"

text \<open>\<open>s.startswith(p)\<close>.\<close>

definition startswith :: "string \<Rightarrow> string \<Rightarrow> bool" where
  "startswith s p = (take (length p) s = p)"

text \<open>\<open>sub in s\<close> on strings.\<close>

fun contains :: "string \<Rightarrow> string \<Rightarrow> bool" where
  "contains [] sub = (sub = [])"
| "contains (c # cs) sub = (startswith (c # cs) sub \<or> contains cs sub)"

text \<open>
  \<open>str.isspace\<close> on one character, for code points below 256: TAB, LF, VT, FF, CR,
  the separators 0x1C to 0x1F, space, NEL and the no-break space.
\<close>

definition py_isspace :: "char \<Rightarrow> bool" where
  "py_isspace c =
     (let n = of_char c :: nat
      in (9 \<le> n \<and> n \<le> 13) \<or> (28 \<le> n \<and> n \<le> 32) \<or> n = 133 \<or> n = 160)"

text \<open>\<open>s.strip()\<close>.\<close>

definition strip :: "string \<Rightarrow> string" where
  "strip s = rev (dropWhile py_isspace (rev (dropWhile py_isspace s)))"

text \<open>\<open>sep.join(xs)\<close>.\<close>

fun join :: "string \<Rightarrow> string list \<Rightarrow> string" where
  "join sep [] = []"
| "join sep [x] = x"
| "join sep (x # y # ys) = x @ sep @ join sep (y # ys)"

text \<open>\<open>str(n)\<close> for a non-negative integer.\<close>

fun str_nat :: "nat \<Rightarrow> string" where
  "str_nat n =
     (if n < 10 then [char_of (48 + n)]
      else str_nat (n div 10) @ [char_of (48 + n mod 10)])"

declare str_nat.simps [simp del]

section \<open>The outside world of one process run\<close>

text \<open>
  A workbook as \<open>openpyxl\<close> hands it over: the sheets in \<open>workbook.sheetnames\<close> order,
  each with its rows from \<open>iter_rows(values_only=True)\<close>. A cell is \<open>None\<close> when it is
  blank, and otherwise \<open>Some\<close> of what \<open>str(cell)\<close> gives for its value.
\<close>

type_synonym row = "string option list"
type_synonym workbook = "(string \<times> row list) list"

text \<open>
  What \<open>requests.get\<close> returns once \<open>raise_for_status\<close> has passed:
  \<open>headers.get('content-type', '').lower()\<close>, \<open>response.text\<close> and \<open>response.content\<close>.
\<close>

record response =
  content_type :: string
  resp_text :: string
  resp_content :: string

text \<open>
  The objects built for the few-shot examples (\<open>lx.data.Extraction\<close>,
  \<open>lx.data.ExampleData\<close>), the arguments of \<open>lx.extract\<close>, and what the runners read from
  an extraction it returns. \<open>position_start\<close>, \<open>position_end\<close> and \<open>confidence\<close> are read
  with \<open>getattr(..., None)\<close>, so \<open>None\<close> also stands for an attribute that is not there.
\<close>

record example_extraction =
  ee_extraction_class :: string
  ee_extraction_text :: string
  ee_attributes :: json

record example =
  ed_text :: string
  ed_extractions :: "example_extraction list"

record extract_args =
  arg_text_or_documents :: string
  arg_prompt_description :: string
  arg_examples :: "example list"
  arg_model_id :: string
  arg_extraction_passes :: int
  arg_max_workers :: int
  arg_max_char_buffer :: "int option"
  arg_api_key :: "string option option"

record extraction =
  extraction_class :: string
  extraction_text :: string
  attributes :: json
  position_start :: "int option"
  position_end :: "int option"
  confidence :: "rat option"

text \<open>
  The result object of \<open>lx.extract\<close>, as far as the runners look at it: it may have no
  \<open>extractions\<close> attribute, or the attribute may be \<open>None\<close>, or a list.
\<close>

datatype lx_result =
    NoExtractionsAttr
  | ExtractionsNone
  | Extractions "extraction list"

type_synonym environ = "string \<rightharpoonup> string"


section \<open>Configurations\<close>

text \<open>
  A configuration is the JSON object the calling backend sends, already parsed, with each
  key holding a value of its documented type when it is there. \<open>None\<close> is a key that is
  absent; for the keys read with \<open>config.get\<close> it also stands for a JSON \<open>null\<close>.
\<close>

record extraction_data =
  xd_extraction_class :: "string option"
  xd_extraction_text :: "string option"
  xd_attributes :: "json option"

record example_data =
  xd_text :: "string option"
  xd_extractions :: "extraction_data list option"

text \<open>Runner A (\<open>enhanced_langextract_runner.py\<close>), read from standard input.\<close>

record config =
  inputText :: "string option"
  promptDescription :: "string option"
  examples :: "example_data list option"
  modelId :: "string option"
  filePath :: "string option"
  apiKey :: "string option"
  extractionPasses :: "int option"
  maxWorkers :: "int option"
  maxCharBuffer :: "int option"

text \<open>Runner B (\<open>langextract_runner.py\<close>), read from the file named by \<open>--config\<close>.\<close>

record config_b =
  b_text :: "string option"
  b_prompt_description :: "string option"
  b_examples :: "example_data list option"
  b_model_id :: "string option"
  b_api_key :: "string option"
  b_extraction_passes :: "int option"
  b_max_workers :: "int option"

text \<open>
  Everything a run reads from outside the script. The clock is read at the start of
  Runner A's \<open>main\<close> and once more when the elapsed time is computed. Files are given
  by what opening and reading them yields; the format libraries are functions of the
  bytes read, and are there or not as their import succeeded. \<open>lx_import\<close> is the
  message of the \<open>ImportError\<close> when \<open>langextract\<close> cannot be imported. \<open>lx_extract\<close>
  is the library call: it sees the environment variables of the moment and its arguments.
\<close>

record world =
  clock_start :: rat
  clock_end :: rat
  environ :: environ
  guess_type :: "string \<Rightarrow> string option"
  suffix_lower :: "string \<Rightarrow> string"
  path_exists :: "string \<Rightarrow> bool"
  files :: "string \<Rightarrow> exn + string"
  decode_ignore :: "string \<Rightarrow> string"
  has_pdfplumber :: bool
  pdf_pages :: "string \<Rightarrow> exn + string option list"
  has_docx :: bool
  docx_paragraphs :: "string \<Rightarrow> exn + string list"
  has_openpyxl :: bool
  load_workbook :: "string \<Rightarrow> exn + workbook"
  has_pptx :: bool
  pptx_slides :: "string \<Rightarrow> exn + string option list list"
  soup_get_text :: "string \<Rightarrow> string"
  json_load_dumps :: "string \<Rightarrow> exn + string"
  http_get :: "string \<Rightarrow> exn + response"
  tmp_pdf_name :: string
  tmp_jsonl_name :: string
  lx_import :: "string option"
  lx_extract :: "environ \<Rightarrow> extract_args \<Rightarrow> exn + lx_result"
  format_exc :: "exn \<Rightarrow> string"
  load_config :: "string \<Rightarrow> exn + config_b"

section \<open>Runner A: text extraction from files and URLs\<close>

text \<open>\<open>try: ... except Exception as e: raise ValueError(prefix + str(e))\<close>.\<close>

definition reraise :: "string \<Rightarrow> exn + 'a \<Rightarrow> exn + 'a" where
  "reraise prefix r =
     (case r of Inl e \<Rightarrow> Inl (ValueError (prefix @ exn_str e)) | Inr x \<Rightarrow> Inr x)"

text \<open>Run the parser of a format on the bytes of a file.\<close>

definition parsed :: "(string \<Rightarrow> exn + 'a) \<Rightarrow> exn + string \<Rightarrow> exn + 'a" where
  "parsed parse r = (case r of Inl e \<Rightarrow> Inl e | Inr bytes \<Rightarrow> parse bytes)"

text \<open>\<open>mime_type and sub in mime_type\<close>.\<close>

definition mentions :: "string option \<Rightarrow> string \<Rightarrow> bool" where
  "mentions mime_type sub =
     (case mime_type of None \<Rightarrow> False | Some m \<Rightarrow> m \<noteq> [] \<and> contains m sub)"

text \<open>The PDF loop: \<open>if page_text: text += page_text + "\n"\<close>.\<close>

definition pdf_step :: "string option \<Rightarrow> string \<Rightarrow> string" where
  "pdf_step page_text txt =
     (case page_text of
        None \<Rightarrow> txt
      | Some t \<Rightarrow> if t \<noteq> [] then txt @ t @ [CHR 0x0A] else txt)"

text \<open>
  The spreadsheet loops. \<open>row_text\<close> renders a blank cell as the empty string; a row is
  appended when \<open>any(row_text)\<close>, that is when some rendered cell is not empty.
\<close>

definition row_text :: "row \<Rightarrow> string list" where
  "row_text r = map (\<lambda>cell. case cell of None \<Rightarrow> [] | Some s \<Rightarrow> s) r"

definition row_step :: "row \<Rightarrow> string list \<Rightarrow> string list" where
  "row_step r txt =
     (if list_ex (\<lambda>s. s \<noteq> []) (row_text r) then txt @ [join [CHR 0x09] (row_text r)]
      else txt)"

definition sheet_step :: "string \<times> row list \<Rightarrow> string list \<Rightarrow> string list" where
  "sheet_step sheet txt = fold row_step (snd sheet) (txt @ [''Sheet: '' @ fst sheet])"

text \<open>
  The presentation loops over \<open>enumerate(prs.slides, 1)\<close>; a shape is \<open>Some\<close> of its
  text when it has a \<open>text\<close> attribute.
\<close>

definition shape_step :: "string option \<Rightarrow> string list \<Rightarrow> string list" where
  "shape_step shape txt = (case shape of None \<Rightarrow> txt | Some t \<Rightarrow> txt @ [t])"

definition slide_step :: "nat \<times> string option list \<Rightarrow> string list \<Rightarrow> string list" where
  "slide_step slide txt =
     fold shape_step (snd slide) (txt @ [''Slide '' @ str_nat (fst slide) @ '':''])"

definition extract_text_from_file :: "world \<Rightarrow> string \<Rightarrow> string option \<Rightarrow> exn + string" where
  "extract_text_from_file w file_path mime =
     (let mime_type = (if \<not> truthy mime then guess_type w file_path else mime);
          file_ext = suffix_lower w file_path
      in reraise (''Failed to extract text from '' @ file_ext @ '' file: '')
          (if mentions mime_type ''text'' \<or> file_ext \<in> set [''.txt'', ''.md'', ''.csv'']
           then map_sum id (decode_ignore w) (files w file_path)
           else if file_ext = ''.pdf'' \<and> has_pdfplumber w
           then map_sum id (\<lambda>pages. strip (fold pdf_step pages []))
                  (parsed (pdf_pages w) (files w file_path))
           else if file_ext \<in> set [''.docx'', ''.doc''] \<and> has_docx w
           then map_sum id (join [CHR 0x0A])
                  (parsed (docx_paragraphs w) (files w file_path))
           else if file_ext \<in> set [''.xlsx'', ''.xls''] \<and> has_openpyxl w
           then map_sum id (\<lambda>workbook. join [CHR 0x0A] (fold sheet_step workbook []))
                  (parsed (load_workbook w) (files w file_path))
           else if file_ext \<in> set [''.pptx'', ''.ppt''] \<and> has_pptx w
           then map_sum id (\<lambda>slides. join [CHR 0x0A] (fold slide_step (enumerate 1 slides) []))
                  (parsed (pptx_slides w) (files w file_path))
           else if file_ext \<in> set [''.html'', ''.htm''] \<or> mentions mime_type ''html''
           then map_sum id (\<lambda>bytes. soup_get_text w (decode_ignore w bytes))
                  (files w file_path)
           else if file_ext = ''.json''
           then parsed (json_load_dumps w) (files w file_path)
           else map_sum id (decode_ignore w) (files w file_path)))"

text \<open>
  \<open>download_and_extract_from_url\<close>. For a PDF body the bytes are written to a temporary
  file, which is then read back through \<open>extract_text_from_file\<close>.
\<close>

definition download_and_extract_from_url :: "world \<Rightarrow> string \<Rightarrow> exn + string" where
  "download_and_extract_from_url w url =
     reraise ''Failed to download or extract text from URL: ''
       (case http_get w url of
          Inl e \<Rightarrow> Inl e
        | Inr response \<Rightarrow>
            if contains (content_type response) ''text/html''
            then Inr (soup_get_text w (resp_content response))
            else if contains (content_type response) ''text/''
            then Inr (resp_text response)
            else if contains (content_type response) ''application/pdf'' \<and> has_pdfplumber w
            then extract_text_from_file
                   (w\<lparr>files := (files w)(tmp_pdf_name w := Inr (resp_content response))\<rparr>)
                   (tmp_pdf_name w) (Some ''application/pdf'')
            else Inr (resp_text response))"


section \<open>Runner A: \<open>main\<close>\<close>

text \<open>
  What a run leaves behind: the JSON document printed on standard output, the exit
  status, the environment variables at the end, and the calls of \<open>lx.extract\<close> that were
  made, each with the environment variables it saw. Temporary files stay on disk but no
  later step reads them; they are not part of the outcome.
\<close>

record outcome =
  stdout :: json
  exit_code :: int
  environ_after :: environ
  lx_calls :: "(environ \<times> extract_args) list"

text \<open>Sequencing of steps that may raise.\<close>

definition and_then :: "exn + 'a \<Rightarrow> ('a \<Rightarrow> exn + 'b) \<Rightarrow> exn + 'b" where
  "and_then r f = (case r of Inl e \<Rightarrow> Inl e | Inr x \<Rightarrow> f x)"

text \<open>A \<open>for\<close> loop that appends one built object per element and stops at the first raise.\<close>

fun collect :: "('a \<Rightarrow> exn + 'b) \<Rightarrow> 'a list \<Rightarrow> exn + 'b list" where
  "collect f [] = Inr []"
| "collect f (x # xs) =
     and_then (f x) (\<lambda>y. and_then (collect f xs) (\<lambda>ys. Inr (y # ys)))"

definition required_fields :: "string list" where
  "required_fields = [''inputText'', ''promptDescription'', ''examples'', ''modelId'']"

text \<open>\<open>field in config\<close>, for the keys the validation loop asks about.\<close>

definition has_key :: "config \<Rightarrow> string \<Rightarrow> bool" where
  "has_key c field =
     (if field = ''inputText'' then inputText c \<noteq> None
      else if field = ''promptDescription'' then promptDescription c \<noteq> None
      else if field = ''examples'' then examples c \<noteq> None
      else if field = ''modelId'' then modelId c \<noteq> None
      else False)"

fun check_required :: "config \<Rightarrow> string list \<Rightarrow> exn + unit" where
  "check_required c [] = Inr ()"
| "check_required c (field # rest) =
     (if \<not> has_key c field then Inl (ValueError (''Missing required field: '' @ field))
      else check_required c rest)"

text \<open>\<open>file_path and os.path.exists(file_path)\<close>: the path, when the test passes.\<close>

definition existing_file :: "world \<Rightarrow> string option \<Rightarrow> string option" where
  "existing_file w file_path =
     (case file_path of
        None \<Rightarrow> None
      | Some p \<Rightarrow> if p \<noteq> [] \<and> path_exists w p then Some p else None)"

text \<open>
  Input resolution (lines 168 to 201) ends in one of two ways: the text is printed
  directly (the \<open>return\<close> of the text-only request), or it goes on to the library.
\<close>

datatype resolved = Direct string | Forward string

definition resolve_input :: "world \<Rightarrow> config \<Rightarrow> exn + resolved" where
  "resolve_input w c =
     and_then (getitem (inputText c) ''inputText'') (\<lambda>input_text.
       case existing_file w (filePath c) of
         Some file_path \<Rightarrow>
           reraise ''File processing failed: ''
             (and_then (extract_text_from_file w file_path None) (\<lambda>extracted.
                if strip extracted = []
                then Inl (ValueError ''No text could be extracted from the file'')
                else and_then (getitem (promptDescription c) ''promptDescription'') (\<lambda>pd.
                  if pd = ''Extract text content'' then Inr (Direct extracted)
                  else Inr (Forward extracted))))
       | None \<Rightarrow>
           if startswith input_text ''http://'' \<or> startswith input_text ''https://''
           then reraise ''URL processing failed: ''
                  (and_then (download_and_extract_from_url w input_text) (\<lambda>fetched.
                     if strip fetched = []
                     then Inl (ValueError ''No text could be extracted from the URL'')
                     else Inr (Forward fetched)))
           else Inr (Forward input_text))"

text \<open>The elapsed time in milliseconds, \<open>(time.time() - start_time) * 1000\<close>.\<close>

definition elapsed_ms :: "world \<Rightarrow> rat" where
  "elapsed_ms w = (clock_end w - clock_start w) * 1000"

definition direct_output :: "world \<Rightarrow> string \<Rightarrow> json" where
  "direct_output w input_text =
     JObj [(''success'', JBool True),
           (''extractedText'', JStr input_text),
           (''metadata'', JObj [(''inputLength'', JInt (int (length input_text))),
                               (''processingTime'', JFloat (elapsed_ms w))])]"

text \<open>The outermost \<open>except\<close>: print the error object and \<open>sys.exit(1)\<close>.\<close>

definition error_output :: "world \<Rightarrow> exn \<Rightarrow> json" where
  "error_output w e =
     JObj [(''success'', JBool False),
           (''error'', JStr (exn_str e)),
           (''type'', JStr (exn_type e)),
           (''traceback'', JStr (format_exc w e))]"

definition failure :: "world \<Rightarrow> environ \<Rightarrow> (environ \<times> extract_args) list \<Rightarrow> exn \<Rightarrow> outcome" where
  "failure w env calls e =
     \<lparr>stdout = error_output w e, exit_code = 1, environ_after = env, lx_calls = calls\<rparr>"

text \<open>Translation of the configured examples (Runner A reads \<open>attributes\<close> with a default).\<close>

definition build_extraction :: "extraction_data \<Rightarrow> exn + example_extraction" where
  "build_extraction d =
     and_then (getitem (xd_extraction_class d) ''extraction_class'') (\<lambda>cls.
     and_then (getitem (xd_extraction_text d) ''extraction_text'') (\<lambda>txt.
       Inr \<lparr>ee_extraction_class = cls, ee_extraction_text = txt,
            ee_attributes = (case xd_attributes d of None \<Rightarrow> JObj [] | Some a \<Rightarrow> a)\<rparr>))"

definition build_example :: "example_data \<Rightarrow> exn + example" where
  "build_example d =
     and_then (getitem (xd_extractions d) ''extractions'') (\<lambda>xs.
     and_then (collect build_extraction xs) (\<lambda>extractions.
     and_then (getitem (xd_text d) ''text'') (\<lambda>t.
       Inr \<lparr>ed_text = t, ed_extractions = extractions\<rparr>)))"

definition prepare_examples :: "config \<Rightarrow> exn + example list" where
  "prepare_examples c =
     and_then (getitem (examples c) ''examples'') (collect build_example)"

text \<open>The arguments of the library call (lines 237 to 245).\<close>

definition extract_call :: "config \<Rightarrow> string \<Rightarrow> example list \<Rightarrow> exn + extract_args" where
  "extract_call c input_text exs =
     and_then (getitem (promptDescription c) ''promptDescription'') (\<lambda>pd.
     and_then (getitem (modelId c) ''modelId'') (\<lambda>mid.
       Inr \<lparr>arg_text_or_documents = input_text,
            arg_prompt_description = pd,
            arg_examples = exs,
            arg_model_id = mid,
            arg_extraction_passes = (case extractionPasses c of None \<Rightarrow> 1 | Some n \<Rightarrow> n),
            arg_max_workers = (case maxWorkers c of None \<Rightarrow> 5 | Some n \<Rightarrow> n),
            arg_max_char_buffer =
              Some (case maxCharBuffer c of None \<Rightarrow> 10000 | Some n \<Rightarrow> n),
            arg_api_key = None\<rparr>))"

text \<open>The dict built for one returned extraction.\<close>

definition opt_int :: "int option \<Rightarrow> json" where
  "opt_int v = (case v of None \<Rightarrow> JNull | Some n \<Rightarrow> JInt n)"

definition opt_float :: "rat option \<Rightarrow> json" where
  "opt_float v = (case v of None \<Rightarrow> JNull | Some x \<Rightarrow> JFloat x)"

definition extraction_dict :: "extraction \<Rightarrow> json" where
  "extraction_dict x =
     JObj [(''extraction_class'', JStr (extraction_class x)),
           (''extraction_text'', JStr (extraction_text x)),
           (''attributes'', attributes x),
           (''position_start'', opt_int (position_start x)),
           (''position_end'', opt_int (position_end x)),
           (''confidence'', opt_float (confidence x))]"

text \<open>
  The loop of lines 267 to 279: append the dict to \<open>output['extractions']\<close>, and the
  confidence to \<open>confidences\<close> when it is not \<open>None\<close>.
\<close>

definition gather :: "extraction \<Rightarrow> json list \<times> rat list \<Rightarrow> json list \<times> rat list" where
  "gather x acc =
     (fst acc @ [extraction_dict x],
      case confidence x of None \<Rightarrow> snd acc | Some cf \<Rightarrow> snd acc @ [cf])"

text \<open>
  The output of a successful run (lines 249 to 296). The metadata start at their
  defaults and are overwritten when the result has a non-empty \<open>extractions\<close> list; the
  distinct classes are those of the dicts just built, which carry the extractions'
  classes. The path of the visualization file is added when there are extractions.
\<close>

definition success_output :: "world \<Rightarrow> string \<Rightarrow> lx_result \<Rightarrow> json" where
  "success_output w input_text result =
     (let processing_time = elapsed_ms w;
          found = (case result of Extractions xs \<Rightarrow> xs | _ \<Rightarrow> []);
          acc = fold gather found ([], []);
          confidences = snd acc;
          metadata =
            (if found \<noteq> []
             then [(''totalExtractions'', JInt (int (length (fst acc)))),
                   (''uniqueClasses'', JInt (int (card (set (map extraction_class found))))),
                   (''processingTime'', JFloat processing_time),
                   (''inputLength'', JInt (int (length input_text))),
                   (''averageConfidence'',
                      if confidences \<noteq> []
                      then JFloat (sum_list confidences / of_nat (length confidences))
                      else JInt 0)]
             else [(''totalExtractions'', JInt 0),
                   (''uniqueClasses'', JInt 0),
                   (''processingTime'', JFloat processing_time),
                   (''inputLength'', JInt (int (length input_text))),
                   (''averageConfidence'', JInt 0)])
      in JObj ([(''success'', JBool True),
                (''extractions'', JArr (fst acc)),
                (''metadata'', JObj metadata)]
               @ (if fst acc \<noteq> [] then [(''visualization_file'', JStr (tmp_jsonl_name w))]
                  else [])))"

text \<open>
  Lines 203 to 296: resolve the API key, store it in the environment, import the
  library, translate the examples, call the library and print the result.
\<close>

definition invoke_library :: "world \<Rightarrow> config \<Rightarrow> string \<Rightarrow> outcome" where
  "invoke_library w c input_text =
     (let api_key = py_or (apiKey c) (environ w ''GEMINI_API_KEY'')
      in if \<not> truthy api_key
         then failure w (environ w) []
                (ValueError ''No API key provided. Set GEMINI_API_KEY environment variable.'')
         else
           let env = (environ w)(''GEMINI_API_KEY'' := api_key)
           in case lx_import w of
                Some m \<Rightarrow>
                  failure w env [] (ValueError (''LangExtract library not available: '' @ m))
              | None \<Rightarrow>
                  (case and_then (prepare_examples c) (extract_call c input_text) of
                     Inl e \<Rightarrow> failure w env [] e
                   | Inr args \<Rightarrow>
                       (case lx_extract w env args of
                          Inl e \<Rightarrow>
                            failure w env [(env, args)]
                              (ValueError (''LangExtract processing failed: '' @ exn_str e))
                        | Inr result \<Rightarrow>
                            \<lparr>stdout = success_output w input_text result,
                             exit_code = 0,
                             environ_after = env,
                             lx_calls = [(env, args)]\<rparr>)))"

definition main :: "world \<Rightarrow> config \<Rightarrow> outcome" where
  "main w c =
     (case and_then (check_required c required_fields) (\<lambda>_. resolve_input w c) of
        Inl e \<Rightarrow> failure w (environ w) [] e
      | Inr (Direct extracted) \<Rightarrow>
          \<lparr>stdout = direct_output w extracted,
           exit_code = 0,
           environ_after = environ w,
           lx_calls = []\<rparr>
      | Inr (Forward input_text) \<Rightarrow> invoke_library w c input_text)"

section \<open>Runner B: \<open>run_extraction\<close> and the script body\<close>

text \<open>Translation of the configured examples (Runner B reads \<open>ext["attributes"]\<close>).\<close>

definition build_extraction_b :: "extraction_data \<Rightarrow> exn + example_extraction" where
  "build_extraction_b d =
     and_then (getitem (xd_extraction_class d) ''extraction_class'') (\<lambda>cls.
     and_then (getitem (xd_extraction_text d) ''extraction_text'') (\<lambda>txt.
     and_then (getitem (xd_attributes d) ''attributes'') (\<lambda>attrs.
       Inr \<lparr>ee_extraction_class = cls, ee_extraction_text = txt, ee_attributes = attrs\<rparr>)))"

definition build_example_b :: "example_data \<Rightarrow> exn + example" where
  "build_example_b d =
     and_then (getitem (xd_extractions d) ''extractions'') (\<lambda>xs.
     and_then (collect build_extraction_b xs) (\<lambda>extractions.
     and_then (getitem (xd_text d) ''text'') (\<lambda>t.
       Inr \<lparr>ed_text = t, ed_extractions = extractions\<rparr>)))"

definition prepare_examples_b :: "config_b \<Rightarrow> exn + example list" where
  "prepare_examples_b c =
     and_then (getitem (b_examples c) ''examples'') (collect build_example_b)"

text \<open>
  The key is the first truthy one of the configured key and three environment
  variables (or the last operand when none is).
\<close>

definition resolve_api_key_b :: "world \<Rightarrow> config_b \<Rightarrow> string option" where
  "resolve_api_key_b w c =
     py_or (py_or (py_or (b_api_key c) (environ w ''LANGEXTRACT_API_KEY''))
                  (environ w ''GEMINI_API_KEY''))
           (environ w ''OPENAI_API_KEY'')"

definition extract_call_b :: "config_b \<Rightarrow> string option \<Rightarrow> example list \<Rightarrow> exn + extract_args" where
  "extract_call_b c key exs =
     and_then (getitem (b_text c) ''text'') (\<lambda>t.
     and_then (getitem (b_prompt_description c) ''prompt_description'') (\<lambda>pd.
     and_then (getitem (b_model_id c) ''model_id'') (\<lambda>mid.
       Inr \<lparr>arg_text_or_documents = t,
            arg_prompt_description = pd,
            arg_examples = exs,
            arg_model_id = mid,
            arg_extraction_passes = (case b_extraction_passes c of None \<Rightarrow> 1 | Some n \<Rightarrow> n),
            arg_max_workers = (case b_max_workers c of None \<Rightarrow> 5 | Some n \<Rightarrow> n),
            arg_max_char_buffer = None,
            arg_api_key = Some key\<rparr>)))"

text \<open>
  Lines 46 to 56: with an \<open>extractions\<close> attribute the loop iterates it, which raises
  when the attribute is \<open>None\<close>.
\<close>

definition result_extractions_b :: "lx_result \<Rightarrow> exn + extraction list" where
  "result_extractions_b result =
     (case result of
        NoExtractionsAttr \<Rightarrow> Inr []
      | ExtractionsNone \<Rightarrow>
          Inl (Exn ''TypeError''
                 ([CHR 0x27] @ ''NoneType'' @ [CHR 0x27] @ '' object is not iterable''))
      | Extractions xs \<Rightarrow> Inr xs)"

text \<open>
  Line 60: \<open>[ext.get("confidence", 1.0) for ext in extractions
  if ext.get("confidence") is not None]\<close>. Every dict built above has the key, so the
  default of \<open>get\<close> (the \<open>None\<close> case below) is for a dict without it.
\<close>

definition confidences_b :: "extraction list \<Rightarrow> rat list" where
  "confidences_b extractions =
     map (\<lambda>ext. case confidence ext of None \<Rightarrow> 1 | Some cf \<Rightarrow> cf)
       (filter (\<lambda>ext. confidence ext \<noteq> None) extractions)"

definition avg_confidence_b :: "extraction list \<Rightarrow> rat" where
  "avg_confidence_b extractions =
     (let confidences = confidences_b extractions
      in if confidences \<noteq> [] then sum_list confidences / of_nat (length confidences)
         else 0)"

definition success_dict_b :: "extraction list \<Rightarrow> json" where
  "success_dict_b extractions =
     JObj [(''success'', JBool True),
           (''extractions'', JArr (map extraction_dict extractions)),
           (''metadata'',
              JObj [(''total_extractions'', JInt (int (length extractions))),
                    (''unique_classes'',
                       JInt (int (card (set (map extraction_class extractions))))),
                    (''average_confidence'', JFloat (avg_confidence_b extractions))])]"

definition error_dict_b :: "exn \<Rightarrow> json" where
  "error_dict_b e = JObj [(''success'', JBool False), (''error'', JStr (exn_str e))]"

text \<open>
  \<open>run_extraction\<close>: the dict it returns, and the library calls made on the way. Any
  exception inside becomes the error dict.
\<close>

definition run_extraction :: "world \<Rightarrow> config_b \<Rightarrow> json \<times> (environ \<times> extract_args) list" where
  "run_extraction w c =
     (case and_then (prepare_examples_b c) (extract_call_b c (resolve_api_key_b w c)) of
        Inl e \<Rightarrow> (error_dict_b e, [])
      | Inr args \<Rightarrow>
          (case and_then (lx_extract w (environ w) args) result_extractions_b of
             Inl e \<Rightarrow> (error_dict_b e, [(environ w, args)])
           | Inr extractions \<Rightarrow> (success_dict_b extractions, [(environ w, args)])))"

text \<open>
  The script: the import at the top, then the \<open>__main__\<close> block once \<open>--config\<close> has
  been parsed. Only the failed import ends with \<open>sys.exit(1)\<close>.
\<close>

definition main_b :: "world \<Rightarrow> string \<Rightarrow> outcome" where
  "main_b w config_path =
     (case lx_import w of
        Some m \<Rightarrow>
          \<lparr>stdout = JObj [(''error'',
               JStr ''langextract not installed. Please install with: pip install langextract'')],
           exit_code = 1,
           environ_after = environ w,
           lx_calls = []\<rparr>
      | None \<Rightarrow>
          (case load_config w config_path of
             Inl e \<Rightarrow>
               \<lparr>stdout = error_dict_b e, exit_code = 0,
                environ_after = environ w, lx_calls = []\<rparr>
           | Inr c \<Rightarrow>
               \<lparr>stdout = fst (run_extraction w c), exit_code = 0,
                environ_after = environ w, lx_calls = snd (run_extraction w c)\<rparr>))"

text \<open>Reading a key of a printed JSON object.\<close>

definition jget :: "json \<Rightarrow> string \<Rightarrow> json option" where
  "jget j key = (case j of JObj kvs \<Rightarrow> map_of kvs key | _ \<Rightarrow> None)"

section \<open>The specification's words, for comparison with the code\<close>

text \<open>The confidences that are reported (not \<open>None\<close>), in order, and the mean of a list.\<close>

definition reported :: "extraction list \<Rightarrow> rat list" where
  "reported xs =
     concat (map (\<lambda>v. case v of None \<Rightarrow> [] | Some cf \<Rightarrow> [cf]) (map confidence xs))"

definition mean :: "rat list \<Rightarrow> rat" where
  "mean cs = sum_list cs / of_nat (length cs)"

text \<open>
  The specification on Runner B: a default confidence of 1.0 is substituted for each
  missing value before averaging.
\<close>

definition spec_substituted :: "extraction list \<Rightarrow> rat list" where
  "spec_substituted xs = map (\<lambda>x. case confidence x of None \<Rightarrow> 1 | Some cf \<Rightarrow> cf) xs"

text \<open>
  The specification on spreadsheets: for each sheet a header line naming it, then one
  line per row with the cell values joined by tabs, blank cells rendered as the empty
  string, skipping the rows whose cells are all blank.
\<close>

definition spec_cell :: "string option \<Rightarrow> string" where
  "spec_cell cell = (case cell of None \<Rightarrow> [] | Some s \<Rightarrow> s)"

definition spec_all_blank :: "row \<Rightarrow> bool" where
  "spec_all_blank r = list_all (\<lambda>cell. spec_cell cell = []) r"

definition spec_sheet_lines :: "string \<times> row list \<Rightarrow> string list" where
  "spec_sheet_lines sheet =
     (''Sheet: '' @ fst sheet)
     # map (\<lambda>r. join [CHR 0x09] (map spec_cell r))
         (filter (\<lambda>r. \<not> spec_all_blank r) (snd sheet))"

definition spec_workbook_lines :: "workbook \<Rightarrow> string list" where
  "spec_workbook_lines workbook = concat (map spec_sheet_lines workbook)"

text \<open>
  A printed envelope without its elapsed-time field, and without both the elapsed-time
  field and the path of the visualization file.
\<close>

definition drop_key :: "string \<Rightarrow> (string \<times> json) list \<Rightarrow> (string \<times> json) list" where
  "drop_key key kvs = filter (\<lambda>kv. fst kv \<noteq> key) kvs"

definition in_metadata :: "(json \<Rightarrow> json) \<Rightarrow> string \<times> json \<Rightarrow> string \<times> json" where
  "in_metadata f kv = (if fst kv = ''metadata'' then (fst kv, f (snd kv)) else kv)"

definition drop_field :: "string \<Rightarrow> json \<Rightarrow> json" where
  "drop_field key j = (case j of JObj kvs \<Rightarrow> JObj (drop_key key kvs) | _ \<Rightarrow> j)"

definition drop_time :: "json \<Rightarrow> json" where
  "drop_time j =
     (case j of
        JObj kvs \<Rightarrow> JObj (map (in_metadata (drop_field ''processingTime'')) kvs)
      | _ \<Rightarrow> j)"

definition drop_time_and_file :: "json \<Rightarrow> json" where
  "drop_time_and_file j = drop_field ''visualization_file'' (drop_time j)"

text \<open>The first required key, in the order of the validation loop, that is absent.\<close>

definition first_missing :: "config \<Rightarrow> string" where
  "first_missing c =
     (if inputText c = None then ''inputText''
      else if promptDescription c = None then ''promptDescription''
      else if examples c = None then ''examples''
      else ''modelId'')"

text \<open>
  A second run in the same surroundings: all that may differ are the two readings of the
  clock and the names the temporary files get.
\<close>

definition rerun :: "world \<Rightarrow> rat \<Rightarrow> rat \<Rightarrow> string \<Rightarrow> string \<Rightarrow> world" where
  "rerun w a b n m =
     w\<lparr>clock_start := a, clock_end := b, tmp_pdf_name := n, tmp_jsonl_name := m\<rparr>"

section \<open>Concrete inputs\<close>

definition demo_half :: extraction where
  "demo_half =
     \<lparr>extraction_class = ''A'', extraction_text = ''Ada'', attributes = JObj [],
      position_start = None, position_end = None, confidence = Some (1 / 2)\<rparr>"

definition demo_seven :: extraction where
  "demo_seven =
     \<lparr>extraction_class = ''A'', extraction_text = ''Alan'', attributes = JObj [],
      position_start = None, position_end = None, confidence = Some (7 / 10)\<rparr>"

definition demo_none :: extraction where
  "demo_none =
     \<lparr>extraction_class = ''B'', extraction_text = ''Bletchley'', attributes = JObj [],
      position_start = None, position_end = None, confidence = None\<rparr>"

definition demo_config :: config where
  "demo_config =
     \<lparr>inputText = Some ''Ada met Alan'', promptDescription = Some ''Extract names'',
      examples = Some [], modelId = Some ''gemini-2.5-flash'', filePath = None,
      apiKey = Some ''secret'', extractionPasses = None, maxWorkers = None,
      maxCharBuffer = None\<rparr>"

definition demo_config_b :: config_b where
  "demo_config_b =
     \<lparr>b_text = Some ''Ada met Alan'', b_prompt_description = Some ''Extract names'',
      b_examples = Some [], b_model_id = Some ''gemini-2.5-flash'',
      b_api_key = Some ''secret'', b_extraction_passes = None, b_max_workers = None\<rparr>"

text \<open>
  A small world: an HTML page, a text file, a file holding one space and a workbook on
  disk, \<open>mimetypes\<close> answering as the standard table does for these names, no network,
  no environment variables, and a library that returns three extractions.
\<close>

definition demo_world :: world where
  "demo_world =
     \<lparr>clock_start = 100,
      clock_end = 102,
      environ = Map.empty,
      guess_type = (\<lambda>p. if p = ''page.html'' then Some ''text/html''
                          else if p = ''notes.txt'' \<or> p = ''blank.txt'' then Some ''text/plain''
                          else if p = ''book.xlsx''
                          then Some ''application/vnd.openxmlformats-officedocument.spreadsheetml.sheet''
                          else None),
      suffix_lower = (\<lambda>p. if p = ''page.html'' then ''.html''
                            else if p = ''notes.txt'' \<or> p = ''blank.txt'' then ''.txt''
                            else if p = ''book.xlsx'' then ''.xlsx''
                            else if p = ''/tmp/tmp1.pdf'' \<or> p = ''/tmp/tmp3.pdf'' then ''.pdf''
                            else []),
      path_exists = (\<lambda>p. p \<in> set [''page.html'', ''notes.txt'', ''blank.txt'', ''book.xlsx'']),
      files = (\<lambda>p. if p = ''page.html'' then Inr ''<p>Hi</p>''
                     else if p = ''notes.txt'' then Inr ''Ada met Alan''
                     else if p = ''blank.txt'' then Inr '' ''
                     else if p = ''book.xlsx'' then Inr ''PK''
                     else Inl (Exn ''FileNotFoundError'' ''No such file or directory'')),
      decode_ignore = (\<lambda>bytes. bytes),
      has_pdfplumber = True,
      pdf_pages = (\<lambda>bytes. Inr []),
      has_docx = True,
      docx_paragraphs = (\<lambda>bytes. Inr []),
      has_openpyxl = True,
      load_workbook = (\<lambda>bytes. Inr [(''Sheet1'', [[Some ''a'', Some ''b''], [Some [], Some []]])]),
      has_pptx = True,
      pptx_slides = (\<lambda>bytes. Inr []),
      soup_get_text = (\<lambda>markup. if markup = ''<p>Hi</p>'' then ''Hi'' else markup),
      json_load_dumps = (\<lambda>bytes. Inr bytes),
      http_get = (\<lambda>url. Inl (Exn ''ConnectionError'' ''unreachable'')),
      tmp_pdf_name = ''/tmp/tmp1.pdf'',
      tmp_jsonl_name = ''/tmp/tmp2.jsonl'',
      lx_import = None,
      lx_extract = (\<lambda>env args. Inr (Extractions [demo_half, demo_seven, demo_none])),
      format_exc = (\<lambda>e. ''Traceback (most recent call last): '' @ exn_type e),
      load_config = (\<lambda>p. if p = ''config.json'' then Inr demo_config_b
                           else Inl (Exn ''FileNotFoundError'' ''No such file or directory''))\<rparr>"

text \<open>The same world with a library call that raises.\<close>

definition failing_library :: world where
  "failing_library =
     demo_world\<lparr>lx_extract := (\<lambda>env args. Inl (Exn ''RuntimeError'' ''quota exceeded''))\<rparr>"

text \<open>The arguments Runner B passes for \<open>demo_config_b\<close>.\<close>

definition demo_args_b :: extract_args where
  "demo_args_b =
     \<lparr>arg_text_or_documents = ''Ada met Alan'', arg_prompt_description = ''Extract names'',
      arg_examples = [], arg_model_id = ''gemini-2.5-flash'', arg_extraction_passes = 1,
      arg_max_workers = 5, arg_max_char_buffer = None, arg_api_key = Some (Some ''secret'')\<rparr>"

text \<open>The demo configuration as a text-only request for a file, and with a file that is not there.\<close>

definition text_only_config :: "string \<Rightarrow> config" where
  "text_only_config p =
     demo_config\<lparr>promptDescription := Some ''Extract text content'', filePath := Some p\<rparr>"

definition missing_file_config :: config where
  "missing_file_config = demo_config\<lparr>filePath := Some ''missing.txt''\<rparr>"

text \<open>The arguments Runner A passes for \<open>demo_config\<close>.\<close>

definition demo_args :: extract_args where
  "demo_args =
     \<lparr>arg_text_or_documents = ''Ada met Alan'', arg_prompt_description = ''Extract names'',
      arg_examples = [], arg_model_id = ''gemini-2.5-flash'', arg_extraction_passes = 1,
      arg_max_workers = 5, arg_max_char_buffer = Some 10000, arg_api_key = None\<rparr>"

text \<open>A second run in the demo world.\<close>

definition second_run :: world where
  "second_run = rerun demo_world 200 205 ''/tmp/tmp3.pdf'' ''/tmp/tmp4.jsonl''"

section \<open>Properties\<close>

subsection \<open>Result normalisation\<close>

lemma reported_Nil: "reported [] = []"
  by (simp add: reported_def)

lemma reported_Cons:
  "reported (x # xs) =
     (case confidence x of None \<Rightarrow> reported xs | Some cf \<Rightarrow> cf # reported xs)"
  by (simp add: reported_def split: option.splits)

lemma confidences_b_reported: "confidences_b xs = reported xs"
  by (induction xs)
     (simp_all add: confidences_b_def reported_Cons reported_Nil split: option.splits)

lemma fold_gather:
  "fold gather xs acc = (fst acc @ map extraction_dict xs, snd acc @ reported xs)"
  by (induction xs arbitrary: acc)
     (simp_all add: gather_def reported_Cons reported_Nil split: option.splits)

lemma metadata_b:
  "jget (success_dict_b xs) ''metadata'' =
     Some (JObj [(''total_extractions'', JInt (int (length xs))),
                 (''unique_classes'', JInt (int (card (set (map extraction_class xs))))),
                 (''average_confidence'', JFloat (avg_confidence_b xs))])"
  by (simp add: success_dict_b_def jget_def)

lemma metadata_a:
  "jget (success_output w t (Extractions xs)) ''metadata'' =
     Some (JObj [(''totalExtractions'', JInt (int (length xs))),
                 (''uniqueClasses'', JInt (int (card (set (map extraction_class xs))))),
                 (''processingTime'', JFloat (elapsed_ms w)),
                 (''inputLength'', JInt (int (length t))),
                 (''averageConfidence'',
                    if reported xs \<noteq> [] then JFloat (mean (reported xs)) else JInt 0)])"
  by (cases xs)
     (simp_all add: success_output_def jget_def fold_gather mean_def Let_def reported_Nil)

lemma avg_b_demo: "avg_confidence_b [demo_half, demo_none] = 1 / 2"
  by (simp add: avg_confidence_b_def confidences_b_reported reported_def
        demo_half_def demo_none_def)

lemma spec_demo: "mean (spec_substituted [demo_half, demo_none]) = 3 / 4"
  by (simp add: mean_def spec_substituted_def demo_half_def demo_none_def)

text \<open>
  Claim C1 says that Runner B substitutes 1.0 for a missing confidence before averaging.
  It does not on two extractions with confidences 0.5 and \<open>None\<close>: the printed
  \<open>average_confidence\<close> is 0.5, where substituting 1.0 would give 0.75.
\<close>

theorem runner_b_average_counterexample:
  "jget (success_dict_b [demo_half, demo_none]) ''metadata'' =
     Some (JObj [(''total_extractions'', JInt 2), (''unique_classes'', JInt 2),
                 (''average_confidence'', JFloat (1 / 2))]) \<and>
   mean (spec_substituted [demo_half, demo_none]) = 3 / 4 \<and>
   avg_confidence_b [demo_half, demo_none] \<noteq> mean (spec_substituted [demo_half, demo_none])"
proof -
  have "card (set (map extraction_class [demo_half, demo_none])) = 2"
    by (simp add: demo_half_def demo_none_def)
  then show ?thesis
    unfolding metadata_b avg_b_demo spec_demo by simp
qed

text \<open>
  Claim C1, as amended: for every list of extractions Runner B processes, the metadata
  field \<open>average_confidence\<close> is the mean of the confidences that are reported, an
  extraction with a missing confidence being left out of it, and 0.0 when none is
  reported.
\<close>

theorem runner_b_average_skips_missing:
  "\<exists>md. jget (success_dict_b xs) ''metadata'' = Some md \<and>
        jget md ''average_confidence'' =
          Some (JFloat (if reported xs = [] then 0 else mean (reported xs)))"
  unfolding metadata_b
  by (simp add: jget_def avg_confidence_b_def confidences_b_reported mean_def Let_def)

text \<open>
  Claim C6: for every library result with three extractions of classes A, A, B and
  confidences 0.5, 0.7 and \<open>None\<close>, Runner A's metadata report \<open>totalExtractions\<close> 3,
  \<open>uniqueClasses\<close> 2 and \<open>averageConfidence\<close> 0.6, the mean of the two confidences that
  are present; for any result, \<open>averageConfidence\<close> is the mean of the confidences that
  are reported, and 0 when none is.
\<close>

theorem runner_a_metadata_example:
  assumes "map extraction_class xs = [''A'', ''A'', ''B'']"
      and "map confidence xs = [Some (1 / 2), Some (7 / 10), None]"
  shows "(\<exists>md. jget (success_output w t (Extractions xs)) ''metadata'' = Some md \<and>
            jget md ''totalExtractions'' = Some (JInt 3) \<and>
            jget md ''uniqueClasses'' = Some (JInt 2) \<and>
            jget md ''averageConfidence'' = Some (JFloat (6 / 10))) \<and>
         (\<forall>ys. \<exists>md. jget (success_output w t (Extractions ys)) ''metadata'' = Some md \<and>
            jget md ''averageConfidence'' =
              Some (if reported ys = [] then JInt 0 else JFloat (mean (reported ys))))"
proof -
  have len: "length xs = 3"
    using arg_cong [OF assms(1), of length] by simp
  have r: "reported xs = [1 / 2, 7 / 10]"
    unfolding reported_def assms(2) by simp
  have u: "card (set (map extraction_class xs)) = 2"
    unfolding assms(1) by simp
  have general: "\<exists>md. jget (success_output w t (Extractions ys)) ''metadata'' = Some md \<and>
            jget md ''averageConfidence'' =
              Some (if reported ys = [] then JInt 0 else JFloat (mean (reported ys)))" for ys
    unfolding metadata_a by (simp add: jget_def)
  have example: "\<exists>md. jget (success_output w t (Extractions xs)) ''metadata'' = Some md \<and>
            jget md ''totalExtractions'' = Some (JInt 3) \<and>
            jget md ''uniqueClasses'' = Some (JInt 2) \<and>
            jget md ''averageConfidence'' = Some (JFloat (6 / 10))"
    unfolding metadata_a u r len by (simp add: jget_def mean_def)
  from example general show ?thesis by blast
qed

theorem runner_a_metadata_example_witness:
  "map extraction_class [demo_half, demo_seven, demo_none] = [''A'', ''A'', ''B''] \<and>
   map confidence [demo_half, demo_seven, demo_none] = [Some (1 / 2), Some (7 / 10), None] \<and>
   (\<exists>md. jget (success_output demo_world ''Ada met Alan''
              (Extractions [demo_half, demo_seven, demo_none])) ''metadata'' = Some md \<and>
         jget md ''totalExtractions'' = Some (JInt 3) \<and>
         jget md ''uniqueClasses'' = Some (JInt 2) \<and>
         jget md ''averageConfidence'' = Some (JFloat (6 / 10)))"
proof -
  have c: "map extraction_class [demo_half, demo_seven, demo_none] = [''A'', ''A'', ''B'']"
    by (simp add: demo_half_def demo_seven_def demo_none_def)
  have f: "map confidence [demo_half, demo_seven, demo_none] =
           [Some (1 / 2), Some (7 / 10), None]"
    by (simp add: demo_half_def demo_seven_def demo_none_def)
  show ?thesis
    using c f runner_a_metadata_example [OF c f, of demo_world "''Ada met Alan''"] by blast
qed

subsection \<open>Text extraction from files\<close>

lemma row_text_spec: "row_text r = map spec_cell r"
  by (simp add: row_text_def spec_cell_def)

lemma any_row_text: "list_ex (\<lambda>s. s \<noteq> []) (map spec_cell r) = (\<not> spec_all_blank r)"
  by (induction r) (simp_all add: spec_all_blank_def)

lemma fold_row_step:
  "fold row_step rows acc =
     acc @ map (\<lambda>r. join [CHR 0x09] (map spec_cell r))
             (filter (\<lambda>r. \<not> spec_all_blank r) rows)"
  by (induction rows arbitrary: acc) (simp_all add: row_step_def any_row_text row_text_spec)

lemma fold_sheet_step: "fold sheet_step workbook acc = acc @ spec_workbook_lines workbook"
  by (induction workbook arbitrary: acc)
     (simp_all add: sheet_step_def fold_row_step spec_workbook_lines_def spec_sheet_lines_def)

lemma truthy_None: "\<not> truthy None"
  by (simp add: truthy_def)

lemma demo_xlsx_mime: "\<not> mentions (guess_type demo_world ''book.xlsx'') ''text''"
  by (simp add: demo_world_def mentions_def startswith_def)

lemma demo_html_mime: "mentions (guess_type demo_world ''page.html'') ''text''"
  by (simp add: demo_world_def mentions_def startswith_def)

lemma text_mime_reads_raw:
  assumes "mentions (guess_type w p) ''text''"
  shows "extract_text_from_file w p None =
           reraise (''Failed to extract text from '' @ suffix_lower w p @ '' file: '')
             (map_sum id (decode_ignore w) (files w p))"
  using assms by (simp add: extract_text_from_file_def truthy_None Let_def)

text \<open>
  Claim C7: for a spreadsheet file (extension \<open>.xlsx\<close> or \<open>.xls\<close>, \<open>openpyxl\<close>
  importable, a MIME type that does not mention text, a workbook that loads) the resolver
  returns, joined by newlines, for each sheet the header line \<open>Sheet: <name>\<close> and then
  one line per row, the cells joined by tabs with blank cells as empty strings, without
  the rows whose cells are all blank.
\<close>

theorem spreadsheet_lines:
  assumes "suffix_lower w p = ''.xlsx'' \<or> suffix_lower w p = ''.xls''"
      and "has_openpyxl w"
      and "\<not> mentions (guess_type w p) ''text''"
      and "files w p = Inr bytes"
      and "load_workbook w bytes = Inr workbook"
  shows "extract_text_from_file w p None =
           Inr (join [CHR 0x0A] (spec_workbook_lines workbook))"
  using assms
  by (auto simp add: extract_text_from_file_def truthy_None Let_def reraise_def parsed_def
        fold_sheet_step)

text \<open>
  The example of the claim: the sheet \<open>Sheet1\<close> with the rows \<open>["a", "b"]\<close> and
  \<open>["", ""]\<close> gives the two lines \<open>Sheet: Sheet1\<close> and \<open>a<TAB>b\<close>.
\<close>

theorem spreadsheet_lines_witness:
  "suffix_lower demo_world ''book.xlsx'' = ''.xlsx'' \<and>
   has_openpyxl demo_world \<and>
   \<not> mentions (guess_type demo_world ''book.xlsx'') ''text'' \<and>
   files demo_world ''book.xlsx'' = Inr ''PK'' \<and>
   load_workbook demo_world ''PK'' =
     Inr [(''Sheet1'', [[Some ''a'', Some ''b''], [Some [], Some []]])] \<and>
   extract_text_from_file demo_world ''book.xlsx'' None =
     Inr (''Sheet: Sheet1'' @ [CHR 0x0A] @ ''a'' @ [CHR 0x09] @ ''b'')"
proof -
  have s: "suffix_lower demo_world ''book.xlsx'' = ''.xlsx''" by (simp add: demo_world_def)
  have o: "has_openpyxl demo_world" by (simp add: demo_world_def)
  have f: "files demo_world ''book.xlsx'' = Inr ''PK''" by (simp add: demo_world_def)
  have l: "load_workbook demo_world ''PK'' =
             Inr [(''Sheet1'', [[Some ''a'', Some ''b''], [Some [], Some []]])]"
    by (simp add: demo_world_def)
  have "extract_text_from_file demo_world ''book.xlsx'' None =
          Inr (join [CHR 0x0A]
            (spec_workbook_lines [(''Sheet1'', [[Some ''a'', Some ''b''], [Some [], Some []]])]))"
    using spreadsheet_lines [OF disjI1 [OF s] o demo_xlsx_mime f l] .
  then show ?thesis
    using s o f l demo_xlsx_mime
    by (simp add: spec_workbook_lines_def spec_sheet_lines_def spec_all_blank_def spec_cell_def)
qed

text \<open>
  Claim C3 says that a file with the extension \<open>.html\<close> is parsed and its visible text
  returned. The code run on \<open>page.html\<close>, whose guessed MIME type is \<open>text/html\<close> and
  whose content is \<open><p>Hi</p>\<close>: the test of the first branch (the MIME type mentions
  text) passes, and the file comes back as it is, markup included, where the parser
  would give \<open>Hi\<close>.
\<close>

theorem html_file_read_as_plain_text:
  "suffix_lower demo_world ''page.html'' = ''.html'' \<and>
   guess_type demo_world ''page.html'' = Some ''text/html'' \<and>
   files demo_world ''page.html'' = Inr ''<p>Hi</p>'' \<and>
   soup_get_text demo_world ''<p>Hi</p>'' = ''Hi'' \<and>
   extract_text_from_file demo_world ''page.html'' None = Inr ''<p>Hi</p>''"
  unfolding text_mime_reads_raw [OF demo_html_mime]
  by (simp add: demo_world_def reraise_def)

subsection \<open>Failures\<close>

lemma check_required_missing:
  assumes "inputText c = None \<or> promptDescription c = None \<or> examples c = None \<or>
           modelId c = None"
  shows "check_required c required_fields =
           Inl (ValueError (''Missing required field: '' @ first_missing c))"
  using assms by (auto simp add: required_fields_def has_key_def first_missing_def)

lemma check_required_ok:
  assumes "inputText c \<noteq> None" "promptDescription c \<noteq> None" "examples c \<noteq> None"
          "modelId c \<noteq> None"
  shows "check_required c required_fields = Inr ()"
  using assms by (simp add: required_fields_def has_key_def)

text \<open>
  Claim C8: for every Runner A configuration that lacks at least one of the required keys
  \<open>inputText\<close>, \<open>promptDescription\<close>, \<open>examples\<close>, \<open>modelId\<close>, the printed object has
  \<open>success: false\<close> and the error message \<open>Missing required field: <field>\<close> for the
  first missing one, and the exit status is 1; the library is not called.
\<close>

theorem missing_required_field:
  assumes "inputText c = None \<or> promptDescription c = None \<or> examples c = None \<or>
           modelId c = None"
  shows "stdout (main w c) =
           JObj [(''success'', JBool False),
                 (''error'', JStr (''Missing required field: '' @ first_missing c)),
                 (''type'', JStr ''ValueError''),
                 (''traceback'',
                    JStr (format_exc w
                            (ValueError (''Missing required field: '' @ first_missing c))))] \<and>
         exit_code (main w c) = 1 \<and>
         lx_calls (main w c) = []"
  unfolding main_def check_required_missing [OF assms]
  by (simp add: and_then_def failure_def error_output_def ValueError_def)

theorem missing_required_field_witness:
  "modelId (demo_config\<lparr>modelId := None\<rparr>) = None \<and>
   stdout (main demo_world (demo_config\<lparr>modelId := None\<rparr>)) =
     JObj [(''success'', JBool False),
           (''error'', JStr ''Missing required field: modelId''),
           (''type'', JStr ''ValueError''),
           (''traceback'', JStr ''Traceback (most recent call last): ValueError'')] \<and>
   exit_code (main demo_world (demo_config\<lparr>modelId := None\<rparr>)) = 1"
proof -
  have m: "modelId (demo_config\<lparr>modelId := None\<rparr>) = None" by simp
  have h: "inputText (demo_config\<lparr>modelId := None\<rparr>) = None \<or>
           promptDescription (demo_config\<lparr>modelId := None\<rparr>) = None \<or>
           examples (demo_config\<lparr>modelId := None\<rparr>) = None \<or>
           modelId (demo_config\<lparr>modelId := None\<rparr>) = None" by simp
  have f: "first_missing (demo_config\<lparr>modelId := None\<rparr>) = ''modelId''"
    by (simp add: first_missing_def demo_config_def)
  show ?thesis
    using m missing_required_field [OF h, of demo_world]
    by (simp add: f demo_world_def ValueError_def)
qed

lemma run_extraction_cases:
  "fst (run_extraction w c) =
     (case prepare_examples_b c of
        Inl e \<Rightarrow> error_dict_b e
      | Inr exs \<Rightarrow>
          (case extract_call_b c (resolve_api_key_b w c) exs of
             Inl e \<Rightarrow> error_dict_b e
           | Inr args \<Rightarrow>
               (case lx_extract w (environ w) args of
                  Inl e \<Rightarrow> error_dict_b e
                | Inr r \<Rightarrow>
                    (case result_extractions_b r of
                       Inl e \<Rightarrow> error_dict_b e
                     | Inr xs \<Rightarrow> success_dict_b xs))))"
  by (simp add: run_extraction_def and_then_def split: sum.splits)

lemma demo_examples_b: "prepare_examples_b demo_config_b = Inr []"
  by (simp add: prepare_examples_b_def demo_config_b_def and_then_def getitem_def)

lemma demo_key_b: "resolve_api_key_b w demo_config_b = Some ''secret''"
  by (simp add: resolve_api_key_b_def demo_config_b_def py_or_def truthy_def)

lemma demo_call_b: "extract_call_b demo_config_b (Some ''secret'') [] = Inr demo_args_b"
  by (simp add: extract_call_b_def demo_config_b_def and_then_def getitem_def demo_args_b_def)

text \<open>
  Claim C9: once Runner B has imported the library, every failure (reading the
  configuration file, translating the examples, building the call, the library call
  itself, iterating its result) prints the object \<open>{success: false, error: <message>}\<close>,
  with the message only, and the exit status is 0.
\<close>

theorem runner_b_failures:
  assumes imported: "lx_import w = None"
      and failed:
        "load_config w p = Inl e \<or>
         (\<exists>c. load_config w p = Inr c \<and>
            (prepare_examples_b c = Inl e \<or>
             (\<exists>exs. prepare_examples_b c = Inr exs \<and>
                (extract_call_b c (resolve_api_key_b w c) exs = Inl e \<or>
                 (\<exists>args. extract_call_b c (resolve_api_key_b w c) exs = Inr args \<and>
                    (lx_extract w (environ w) args = Inl e \<or>
                     (\<exists>r. lx_extract w (environ w) args = Inr r \<and>
                          result_extractions_b r = Inl e)))))))"
  shows "stdout (main_b w p) =
           JObj [(''success'', JBool False), (''error'', JStr (exn_str e))] \<and>
         exit_code (main_b w p) = 0"
proof -
  from failed consider
      (read) "load_config w p = Inl e"
    | (run) c where "load_config w p = Inr c" "fst (run_extraction w c) = error_dict_b e"
    by (auto simp add: run_extraction_cases)
  then show ?thesis
  proof cases
    case read
    then show ?thesis by (simp add: main_b_def imported error_dict_b_def)
  next
    case run
    then show ?thesis by (simp add: main_b_def imported error_dict_b_def)
  qed
qed

theorem runner_b_failures_witness:
  "lx_import failing_library = None \<and>
   load_config failing_library ''config.json'' = Inr demo_config_b \<and>
   prepare_examples_b demo_config_b = Inr [] \<and>
   extract_call_b demo_config_b (resolve_api_key_b failing_library demo_config_b) [] =
     Inr demo_args_b \<and>
   lx_extract failing_library (environ failing_library) demo_args_b =
     Inl (Exn ''RuntimeError'' ''quota exceeded'') \<and>
   stdout (main_b failing_library ''config.json'') =
     JObj [(''success'', JBool False), (''error'', JStr ''quota exceeded'')] \<and>
   exit_code (main_b failing_library ''config.json'') = 0"
proof -
  have i: "lx_import failing_library = None"
    by (simp add: failing_library_def demo_world_def)
  have l: "load_config failing_library ''config.json'' = Inr demo_config_b"
    by (simp add: failing_library_def demo_world_def)
  have c: "extract_call_b demo_config_b (resolve_api_key_b failing_library demo_config_b) [] =
             Inr demo_args_b"
    by (simp add: demo_key_b demo_call_b)
  have x: "lx_extract failing_library (environ failing_library) demo_args_b =
             Inl (Exn ''RuntimeError'' ''quota exceeded'')"
    by (simp add: failing_library_def)
  have "stdout (main_b failing_library ''config.json'') =
          JObj [(''success'', JBool False),
                (''error'', JStr (exn_str (Exn ''RuntimeError'' ''quota exceeded'')))] \<and>
        exit_code (main_b failing_library ''config.json'') = 0"
    using l demo_examples_b c x
    by (intro runner_b_failures [OF i]) blast
  then show ?thesis
    using i l demo_examples_b c x by simp
qed

subsection \<open>The text-only request\<close>

lemma existing_file_Some:
  "p \<noteq> [] \<Longrightarrow> path_exists w p \<Longrightarrow> existing_file w (Some p) = Some p"
  by (simp add: existing_file_def)

lemma demo_notes: "extract_text_from_file demo_world ''notes.txt'' None = Inr ''Ada met Alan''"
  by (simp add: extract_text_from_file_def truthy_def Let_def demo_world_def mentions_def
        startswith_def reraise_def)

lemma demo_blank: "extract_text_from_file demo_world ''blank.txt'' None = Inr '' ''"
  by (simp add: extract_text_from_file_def truthy_def Let_def demo_world_def mentions_def
        startswith_def reraise_def)

lemma strip_notes: "strip ''Ada met Alan'' = ''Ada met Alan''"
  by (simp add: strip_def py_isspace_def)

lemma strip_blank: "strip '' '' = []"
  by (simp add: strip_def py_isspace_def)

text \<open>
  Claim C5 asks for an existing file with non-empty extracted text. That is not enough:
  \<open>blank.txt\<close> holds one space, its extracted text is not empty, and the text-only
  request for it fails with \<open>No text could be extracted from the file\<close> and status 1.
\<close>

theorem text_only_blank_counterexample:
  "promptDescription (text_only_config ''blank.txt'') = Some ''Extract text content'' \<and>
   path_exists demo_world ''blank.txt'' \<and>
   extract_text_from_file demo_world ''blank.txt'' None = Inr '' '' \<and>
   '' '' \<noteq> [] \<and>
   jget (stdout (main demo_world (text_only_config ''blank.txt''))) ''success'' =
     Some (JBool False) \<and>
   jget (stdout (main demo_world (text_only_config ''blank.txt''))) ''error'' =
     Some (JStr ''File processing failed: No text could be extracted from the file'') \<and>
   jget (stdout (main demo_world (text_only_config ''blank.txt''))) ''extractedText'' = None \<and>
   exit_code (main demo_world (text_only_config ''blank.txt'')) = 1"
proof -
  have e: "path_exists demo_world ''blank.txt''" by (simp add: demo_world_def)
  have c: "check_required (text_only_config ''blank.txt'') required_fields = Inr ()"
    by (simp add: required_fields_def has_key_def text_only_config_def demo_config_def)
  have r: "resolve_input demo_world (text_only_config ''blank.txt'') =
             Inl (ValueError ''File processing failed: No text could be extracted from the file'')"
    by (simp add: resolve_input_def text_only_config_def demo_config_def
          existing_file_Some [OF _ e] demo_blank strip_blank and_then_def getitem_def
          reraise_def ValueError_def)
  have m: "main demo_world (text_only_config ''blank.txt'') =
             failure demo_world (environ demo_world) []
               (ValueError ''File processing failed: No text could be extracted from the file'')"
    by (simp add: main_def c r and_then_def)
  have p: "promptDescription (text_only_config ''blank.txt'') = Some ''Extract text content''"
    by (simp add: text_only_config_def)
  show ?thesis
    unfolding m using e demo_blank p
    by (simp add: failure_def error_output_def jget_def ValueError_def)
qed

text \<open>
  Claim C5, as amended: for every Runner A configuration with all required keys whose
  \<open>promptDescription\<close> is exactly \<open>Extract text content\<close> and whose \<open>filePath\<close> names
  an existing file whose extracted text is not empty after stripping whitespace, the
  library is never called, the exit status is 0, the environment is unchanged and the
  output is \<open>{success: true, extractedText: <text>, metadata: {inputLength,
  processingTime}}\<close>.
\<close>

theorem text_only_short_circuit:
  assumes "inputText c = Some i" and "examples c = Some exs" and "modelId c = Some m"
      and "promptDescription c = Some ''Extract text content''"
      and "filePath c = Some p" and "p \<noteq> []" and "path_exists w p"
      and "extract_text_from_file w p None = Inr extracted"
      and "strip extracted \<noteq> []"
  shows "main w c =
           \<lparr>stdout =
              JObj [(''success'', JBool True),
                    (''extractedText'', JStr extracted),
                    (''metadata'',
                       JObj [(''inputLength'', JInt (int (length extracted))),
                             (''processingTime'',
                                JFloat ((clock_end w - clock_start w) * 1000))])],
            exit_code = 0,
            environ_after = environ w,
            lx_calls = []\<rparr>"
proof -
  have "check_required c required_fields = Inr ()"
    using assms by (simp add: required_fields_def has_key_def)
  moreover have "resolve_input w c = Inr (Direct extracted)"
    using assms
    by (simp add: resolve_input_def existing_file_Some and_then_def getitem_def reraise_def)
  ultimately show ?thesis
    by (simp add: main_def and_then_def direct_output_def elapsed_ms_def)
qed

theorem text_only_short_circuit_witness:
  "path_exists demo_world ''notes.txt'' \<and>
   extract_text_from_file demo_world ''notes.txt'' None = Inr ''Ada met Alan'' \<and>
   strip ''Ada met Alan'' = ''Ada met Alan'' \<and>
   main demo_world (text_only_config ''notes.txt'') =
     \<lparr>stdout =
        JObj [(''success'', JBool True),
              (''extractedText'', JStr ''Ada met Alan''),
              (''metadata'',
                 JObj [(''inputLength'', JInt 12), (''processingTime'', JFloat 2000)])],
      exit_code = 0,
      environ_after = Map.empty,
      lx_calls = []\<rparr>"
proof -
  have e: "path_exists demo_world ''notes.txt''" by (simp add: demo_world_def)
  have s: "strip ''Ada met Alan'' \<noteq> []" by (simp add: strip_notes)
  have "main demo_world (text_only_config ''notes.txt'') =
          \<lparr>stdout =
             JObj [(''success'', JBool True),
                   (''extractedText'', JStr ''Ada met Alan''),
                   (''metadata'',
                      JObj [(''inputLength'', JInt (int (length ''Ada met Alan''))),
                            (''processingTime'',
                               JFloat ((clock_end demo_world - clock_start demo_world) * 1000))])],
           exit_code = 0,
           environ_after = environ demo_world,
           lx_calls = []\<rparr>"
    by (rule text_only_short_circuit [OF _ _ _ _ _ _ e demo_notes s])
       (simp_all add: text_only_config_def demo_config_def)
  then show ?thesis
    using e demo_notes strip_notes by (simp add: demo_world_def)
qed

subsection \<open>Missing files and the API key\<close>

lemma existing_file_missing: "\<not> path_exists w p \<Longrightarrow> existing_file w (Some p) = None"
  by (simp add: existing_file_def)

lemma existing_file_None: "existing_file w None = None"
  by (simp add: existing_file_def)

lemma check_required_filePath:
  "check_required (c\<lparr>filePath := v\<rparr>) required_fields = check_required c required_fields"
  by (simp add: required_fields_def has_key_def)

lemma prepare_examples_filePath: "prepare_examples (c\<lparr>filePath := v\<rparr>) = prepare_examples c"
  by (simp add: prepare_examples_def)

lemma extract_call_filePath: "extract_call (c\<lparr>filePath := v\<rparr>) = extract_call c"
  by (simp add: extract_call_def fun_eq_iff)

lemma invoke_library_filePath:
  "invoke_library w (c\<lparr>filePath := v\<rparr>) t = invoke_library w c t"
  unfolding invoke_library_def prepare_examples_filePath extract_call_filePath by simp

lemma extract_call_text:
  "extract_call c t exs = Inr args \<Longrightarrow> arg_text_or_documents args = t"
  by (auto simp add: extract_call_def and_then_def getitem_def split: option.splits)

lemma invoke_library_calls:
  "lx_calls (invoke_library w c t) = [] \<or>
   (\<exists>exs args. prepare_examples c = Inr exs \<and> extract_call c t exs = Inr args \<and>
      truthy (py_or (apiKey c) (environ w ''GEMINI_API_KEY'')) \<and>
      lx_import w = None \<and>
      lx_calls (invoke_library w c t) =
        [((environ w)(''GEMINI_API_KEY'' := py_or (apiKey c) (environ w ''GEMINI_API_KEY'')), args)] \<and>
      environ_after (invoke_library w c t) =
        (environ w)(''GEMINI_API_KEY'' := py_or (apiKey c) (environ w ''GEMINI_API_KEY'')))"
  by (simp add: invoke_library_def failure_def and_then_def Let_def
        split: option.splits sum.splits)

lemma main_calls:
  "lx_calls (main w c) = [] \<or> (\<exists>t. resolve_input w c = Inr (Forward t) \<and> main w c = invoke_library w c t)"
  by (simp add: main_def failure_def and_then_def split: sum.splits resolved.splits)

lemma demo_resolve: "resolve_input w demo_config = Inr (Forward ''Ada met Alan'')"
  by (simp add: resolve_input_def demo_config_def existing_file_None and_then_def getitem_def
        startswith_def)

lemma demo_check: "check_required demo_config required_fields = Inr ()"
  by (simp add: required_fields_def has_key_def demo_config_def)

lemma demo_call: "and_then (prepare_examples demo_config) (extract_call demo_config ''Ada met Alan'') = Inr demo_args"
  by (simp add: prepare_examples_def extract_call_def demo_config_def and_then_def getitem_def
        demo_args_def)

lemma demo_key: "py_or (apiKey demo_config) (environ w ''GEMINI_API_KEY'') = Some ''secret''"
  by (simp add: py_or_def truthy_def demo_config_def)

lemma demo_environ: "environ demo_world = Map.empty"
  by (simp add: demo_world_def)

lemma demo_import: "lx_import demo_world = None"
  by (simp add: demo_world_def)

lemma demo_extract:
  "lx_extract demo_world env args = Inr (Extractions [demo_half, demo_seven, demo_none])"
  by (simp add: demo_world_def)

lemma demo_main:
  "main demo_world demo_config =
     \<lparr>stdout = success_output demo_world ''Ada met Alan''
                 (Extractions [demo_half, demo_seven, demo_none]),
      exit_code = 0,
      environ_after = [''GEMINI_API_KEY'' \<mapsto> ''secret''],
      lx_calls = [([''GEMINI_API_KEY'' \<mapsto> ''secret''], demo_args)]\<rparr>"
proof -
  have "main demo_world demo_config = invoke_library demo_world demo_config ''Ada met Alan''"
    by (simp add: main_def demo_check demo_resolve and_then_def)
  also have "\<dots> = \<lparr>stdout = success_output demo_world ''Ada met Alan''
                 (Extractions [demo_half, demo_seven, demo_none]),
      exit_code = 0,
      environ_after = [''GEMINI_API_KEY'' \<mapsto> ''secret''],
      lx_calls = [([''GEMINI_API_KEY'' \<mapsto> ''secret''], demo_args)]\<rparr>"
    unfolding invoke_library_def demo_key demo_call
    by (simp add: truthy_def demo_environ demo_import demo_extract Let_def)
  finally show ?thesis .
qed

lemma demo_main_b_calls:
  "lx_calls (main_b demo_world ''config.json'') = [(Map.empty, demo_args_b)]"
  by (simp add: main_b_def run_extraction_def demo_world_def prepare_examples_b_def
        extract_call_b_def resolve_api_key_b_def py_or_def truthy_def demo_config_b_def
        and_then_def getitem_def demo_args_b_def result_extractions_b_def)

text \<open>
  Claim C10: when \<open>filePath\<close> is given but no file exists at that path, the run is the
  run of the same configuration without \<open>filePath\<close>: input resolution fetches
  \<open>inputText\<close> as a URL when it starts with \<open>http://\<close> or \<open>https://\<close>, and
  otherwise every call of the library gets the literal \<open>inputText\<close>.
\<close>

theorem missing_file_falls_through:
  assumes "filePath c = Some p" and "\<not> path_exists w p" and "inputText c = Some i"
  shows "main w c = main w (c\<lparr>filePath := None\<rparr>) \<and>
         resolve_input w c =
           (if startswith i ''http://'' \<or> startswith i ''https://''
            then reraise ''URL processing failed: ''
                   (and_then (download_and_extract_from_url w i) (\<lambda>fetched.
                      if strip fetched = []
                      then Inl (ValueError ''No text could be extracted from the URL'')
                      else Inr (Forward fetched)))
            else Inr (Forward i)) \<and>
         (\<not> (startswith i ''http://'' \<or> startswith i ''https://'') \<longrightarrow>
            (\<forall>call \<in> set (lx_calls (main w c)). arg_text_or_documents (snd call) = i))"
proof -
  have r: "resolve_input w c =
           (if startswith i ''http://'' \<or> startswith i ''https://''
            then reraise ''URL processing failed: ''
                   (and_then (download_and_extract_from_url w i) (\<lambda>fetched.
                      if strip fetched = []
                      then Inl (ValueError ''No text could be extracted from the URL'')
                      else Inr (Forward fetched)))
            else Inr (Forward i))"
    using assms by (simp add: resolve_input_def existing_file_missing and_then_def getitem_def)
  have r': "resolve_input w (c\<lparr>filePath := None\<rparr>) = resolve_input w c"
    unfolding r using assms(3)
    by (simp add: resolve_input_def existing_file_None and_then_def getitem_def)
  have m: "main w c = main w (c\<lparr>filePath := None\<rparr>)"
    unfolding main_def r' check_required_filePath invoke_library_filePath ..
  have t: "\<forall>call \<in> set (lx_calls (main w c)). arg_text_or_documents (snd call) = i"
    if "\<not> (startswith i ''http://'' \<or> startswith i ''https://'')"
  proof -
    have fwd: "resolve_input w c = Inr (Forward i)" using r that by simp
    from main_calls [of w c] show ?thesis
    proof
      assume "lx_calls (main w c) = []"
      then show ?thesis by simp
    next
      assume "\<exists>t. resolve_input w c = Inr (Forward t) \<and> main w c = invoke_library w c t"
      then have mi: "main w c = invoke_library w c i" using fwd by auto
      from invoke_library_calls [of w c i] show ?thesis
        unfolding mi by (auto dest: extract_call_text)
    qed
  qed
  from r m t show ?thesis by blast
qed

theorem missing_file_falls_through_witness:
  "filePath missing_file_config = Some ''missing.txt'' \<and>
   \<not> path_exists demo_world ''missing.txt'' \<and>
   inputText missing_file_config = Some ''Ada met Alan'' \<and>
   exit_code (main demo_world missing_file_config) = 0 \<and>
   map (\<lambda>call. arg_text_or_documents (snd call)) (lx_calls (main demo_world missing_file_config)) =
     [''Ada met Alan'']"
proof -
  have f: "filePath missing_file_config = Some ''missing.txt''"
    by (simp add: missing_file_config_def)
  have e: "\<not> path_exists demo_world ''missing.txt''"
    by (simp add: demo_world_def)
  have i: "inputText missing_file_config = Some ''Ada met Alan''"
    by (simp add: missing_file_config_def demo_config_def)
  have c: "missing_file_config\<lparr>filePath := None\<rparr> = demo_config"
    by (simp add: missing_file_config_def demo_config_def)
  have "main demo_world missing_file_config = main demo_world demo_config"
    using missing_file_falls_through [OF f e i] unfolding c by blast
  then show ?thesis
    using f e i by (simp add: demo_main demo_args_def)
qed

text \<open>
  Claim C4 says that both runners write the resolved key into the environment. Runner B
  does not: with the key \<open>secret\<close> in its configuration and no environment variable
  set, the library is called and the environment is empty at the call and at the end.
\<close>

theorem runner_b_environment_counterexample:
  "load_config demo_world ''config.json'' = Inr demo_config_b \<and>
   b_api_key demo_config_b = Some ''secret'' \<and>
   lx_calls (main_b demo_world ''config.json'') = [(Map.empty, demo_args_b)] \<and>
   environ_after (main_b demo_world ''config.json'') = Map.empty"
  by (simp add: demo_main_b_calls)
     (simp add: main_b_def demo_world_def demo_config_b_def)

text \<open>
  Claim C4, as amended: every library call of Runner A sees the resolved API key (the
  configured \<open>apiKey\<close> when one is supplied, else the variable itself) in
  \<open>GEMINI_API_KEY\<close>, other variables unchanged, and the environment stays so to the end;
  Runner B leaves the environment as it found it and passes the resolved key as the
  \<open>api_key\<close> argument.
\<close>

theorem api_key_in_environment:
  "(\<forall>call \<in> set (lx_calls (main w c)).
      truthy (py_or (apiKey c) (environ w ''GEMINI_API_KEY'')) \<and>
      fst call =
        (environ w)(''GEMINI_API_KEY'' := py_or (apiKey c) (environ w ''GEMINI_API_KEY'')) \<and>
      environ_after (main w c) = fst call \<and>
      (\<forall>k. apiKey c = Some k \<and> k \<noteq> [] \<longrightarrow> fst call ''GEMINI_API_KEY'' = Some k)) \<and>
   environ_after (main_b w p) = environ w \<and>
   (\<forall>call \<in> set (lx_calls (main_b w p)).
      fst call = environ w \<and>
      (\<exists>cb. load_config w p = Inr cb \<and>
            arg_api_key (snd call) = Some (resolve_api_key_b w cb)))"
proof -
  have a: "\<forall>call \<in> set (lx_calls (main w c)).
      truthy (py_or (apiKey c) (environ w ''GEMINI_API_KEY'')) \<and>
      fst call =
        (environ w)(''GEMINI_API_KEY'' := py_or (apiKey c) (environ w ''GEMINI_API_KEY'')) \<and>
      environ_after (main w c) = fst call \<and>
      (\<forall>k. apiKey c = Some k \<and> k \<noteq> [] \<longrightarrow> fst call ''GEMINI_API_KEY'' = Some k)"
  proof -
    from main_calls [of w c] show ?thesis
    proof
      assume "lx_calls (main w c) = []"
      then show ?thesis by simp
    next
      assume "\<exists>t. resolve_input w c = Inr (Forward t) \<and> main w c = invoke_library w c t"
      then obtain t where mi: "main w c = invoke_library w c t" by blast
      from invoke_library_calls [of w c t] show ?thesis
        unfolding mi by (auto simp add: py_or_def truthy_def)
    qed
  qed
  have b: "environ_after (main_b w p) = environ w"
    by (simp add: main_b_def split: option.splits sum.splits)
  have k: "\<forall>call \<in> set (lx_calls (main_b w p)).
      fst call = environ w \<and>
      (\<exists>cb. load_config w p = Inr cb \<and>
            arg_api_key (snd call) = Some (resolve_api_key_b w cb))"
    by (auto simp add: main_b_def run_extraction_def extract_call_b_def and_then_def
          getitem_def split: option.splits sum.splits)
  from a b k show ?thesis by blast
qed

theorem api_key_in_environment_witness:
  "lx_calls (main demo_world demo_config) = [([''GEMINI_API_KEY'' \<mapsto> ''secret''], demo_args)] \<and>
   environ_after (main demo_world demo_config) ''GEMINI_API_KEY'' = Some ''secret'' \<and>
   lx_calls (main_b demo_world ''config.json'') = [(Map.empty, demo_args_b)] \<and>
   environ_after (main_b demo_world ''config.json'') = environ demo_world"
proof -
  have c: "lx_calls (main demo_world demo_config) = [([''GEMINI_API_KEY'' \<mapsto> ''secret''], demo_args)]"
    by (simp add: demo_main)
  have "environ_after (main demo_world demo_config) = [''GEMINI_API_KEY'' \<mapsto> ''secret'']"
    using api_key_in_environment [of demo_world demo_config "''config.json''"]
    unfolding c by simp
  moreover have "environ_after (main_b demo_world ''config.json'') = environ demo_world"
    using api_key_in_environment [of demo_world demo_config "''config.json''"] by blast
  ultimately show ?thesis
    using c demo_main_b_calls by simp
qed

subsection \<open>Repeated runs\<close>

lemma rerun_fields:
  "environ (rerun w a b n m) = environ w"
  "guess_type (rerun w a b n m) = guess_type w"
  "suffix_lower (rerun w a b n m) = suffix_lower w"
  "path_exists (rerun w a b n m) = path_exists w"
  "files (rerun w a b n m) = files w"
  "decode_ignore (rerun w a b n m) = decode_ignore w"
  "has_pdfplumber (rerun w a b n m) = has_pdfplumber w"
  "pdf_pages (rerun w a b n m) = pdf_pages w"
  "has_docx (rerun w a b n m) = has_docx w"
  "docx_paragraphs (rerun w a b n m) = docx_paragraphs w"
  "has_openpyxl (rerun w a b n m) = has_openpyxl w"
  "load_workbook (rerun w a b n m) = load_workbook w"
  "has_pptx (rerun w a b n m) = has_pptx w"
  "pptx_slides (rerun w a b n m) = pptx_slides w"
  "soup_get_text (rerun w a b n m) = soup_get_text w"
  "json_load_dumps (rerun w a b n m) = json_load_dumps w"
  "http_get (rerun w a b n m) = http_get w"
  "lx_import (rerun w a b n m) = lx_import w"
  "lx_extract (rerun w a b n m) = lx_extract w"
  "format_exc (rerun w a b n m) = format_exc w"
  "load_config (rerun w a b n m) = load_config w"
  by (simp_all add: rerun_def)

lemma extract_rerun:
  "extract_text_from_file (rerun w a b n m) path mime = extract_text_from_file w path mime"
  unfolding extract_text_from_file_def rerun_fields ..

lemma not_text_pdf: "\<not> mentions (Some ''application/pdf'') ''text''"
  by (simp add: mentions_def startswith_def)

lemma extract_tmp_pdf:
  assumes "suffix_lower w n = ''.pdf''" and "has_pdfplumber w"
  shows "extract_text_from_file (w\<lparr>files := (files w)(n := Inr content)\<rparr>) n
           (Some ''application/pdf'') =
         reraise ''Failed to extract text from .pdf file: ''
           (map_sum id (\<lambda>pages. strip (fold pdf_step pages [])) (pdf_pages w content))"
  using assms
  by (simp add: extract_text_from_file_def truthy_def not_text_pdf Let_def parsed_def)

lemma download_rerun:
  assumes "suffix_lower w (tmp_pdf_name w) = ''.pdf''" and "suffix_lower w n = ''.pdf''"
  shows "download_and_extract_from_url (rerun w a b n m) url = download_and_extract_from_url w url"
proof -
  have n: "tmp_pdf_name (rerun w a b n m) = n" by (simp add: rerun_def)
  have t: "extract_text_from_file
             ((rerun w a b n m)\<lparr>files := (files w)(n := Inr content)\<rparr>) n
             (Some ''application/pdf'') =
           extract_text_from_file
             (w\<lparr>files := (files w)(tmp_pdf_name w := Inr content)\<rparr>) (tmp_pdf_name w)
             (Some ''application/pdf'')"
    if p: "has_pdfplumber w" for content
  proof -
    have "extract_text_from_file
             ((rerun w a b n m)\<lparr>files := (files (rerun w a b n m))(n := Inr content)\<rparr>) n
             (Some ''application/pdf'') =
          reraise ''Failed to extract text from .pdf file: ''
           (map_sum id (\<lambda>pages. strip (fold pdf_step pages []))
              (pdf_pages (rerun w a b n m) content))"
      by (rule extract_tmp_pdf) (simp_all add: rerun_fields assms p)
    then show ?thesis
      unfolding rerun_fields extract_tmp_pdf [OF assms(1) p] .
  qed
  show ?thesis
  proof (cases "http_get w url")
    case (Inl e)
    then show ?thesis
      unfolding download_and_extract_from_url_def rerun_fields by simp
  next
    case (Inr response)
    show ?thesis
    proof (cases "has_pdfplumber w")
      case True
      show ?thesis
        unfolding download_and_extract_from_url_def rerun_fields n Inr
        by (simp add: t [OF True])
    next
      case False
      then show ?thesis
        unfolding download_and_extract_from_url_def rerun_fields n Inr
        by simp
    qed
  qed
qed

lemma resolve_rerun:
  assumes "suffix_lower w (tmp_pdf_name w) = ''.pdf''" and "suffix_lower w n = ''.pdf''"
  shows "resolve_input (rerun w a b n m) c = resolve_input w c"
  unfolding resolve_input_def existing_file_def rerun_fields extract_rerun
    download_rerun [OF assms] ..

lemma error_output_rerun: "error_output (rerun w a b n m) e = error_output w e"
  by (simp add: error_output_def rerun_def)

lemma failure_rerun: "failure (rerun w a b n m) env calls e = failure w env calls e"
  by (simp add: failure_def error_output_rerun)

lemma drop_direct:
  "drop_time_and_file (direct_output w t) =
     JObj [(''success'', JBool True), (''extractedText'', JStr t),
           (''metadata'', JObj [(''inputLength'', JInt (int (length t)))])]"
  by (simp add: direct_output_def drop_time_and_file_def drop_time_def drop_field_def
        drop_key_def in_metadata_def)

lemma drop_success_rerun:
  "drop_time_and_file (success_output (rerun w a b n m) t r) =
   drop_time_and_file (success_output w t r)"
  by (simp add: success_output_def drop_time_and_file_def drop_time_def drop_field_def
        drop_key_def in_metadata_def Let_def rerun_def)

lemma invoke_rerun:
  "drop_time_and_file (stdout (invoke_library (rerun w a b n m) c t)) =
     drop_time_and_file (stdout (invoke_library w c t)) \<and>
   exit_code (invoke_library (rerun w a b n m) c t) = exit_code (invoke_library w c t) \<and>
   environ_after (invoke_library (rerun w a b n m) c t) = environ_after (invoke_library w c t) \<and>
   lx_calls (invoke_library (rerun w a b n m) c t) = lx_calls (invoke_library w c t)"
proof -
  show ?thesis
    unfolding invoke_library_def rerun_fields failure_rerun
    by (simp add: Let_def drop_success_rerun split: option.splits sum.splits)
qed

text \<open>
  Claim C2, as amended: two runs on the same configuration in the same surroundings,
  which may differ in the clock readings and in the names of the temporary files (the
  temporary PDF being named \<open>*.pdf\<close>), print envelopes that are equal apart from
  \<open>processingTime\<close> and \<open>visualization_file\<close>, with the same exit status, environment
  and library calls, in Runner A; in Runner B the two runs are equal altogether.
\<close>

theorem envelopes_repeatable:
  assumes "suffix_lower w (tmp_pdf_name w) = ''.pdf''" and "suffix_lower w n = ''.pdf''"
  shows "drop_time_and_file (stdout (main (rerun w a b n m) c)) =
           drop_time_and_file (stdout (main w c)) \<and>
         exit_code (main (rerun w a b n m) c) = exit_code (main w c) \<and>
         environ_after (main (rerun w a b n m) c) = environ_after (main w c) \<and>
         lx_calls (main (rerun w a b n m) c) = lx_calls (main w c) \<and>
         main_b (rerun w a b n m) p = main_b w p"
proof -
  have a: "drop_time_and_file (stdout (main (rerun w a b n m) c)) =
           drop_time_and_file (stdout (main w c)) \<and>
         exit_code (main (rerun w a b n m) c) = exit_code (main w c) \<and>
         environ_after (main (rerun w a b n m) c) = environ_after (main w c) \<and>
         lx_calls (main (rerun w a b n m) c) = lx_calls (main w c)"
    unfolding main_def resolve_rerun [OF assms] failure_rerun rerun_fields
    using invoke_rerun [of w a b n m c]
    by (simp add: drop_direct split: sum.splits resolved.splits)
  have b: "main_b (rerun w a b n m) p = main_b w p"
    unfolding main_b_def run_extraction_def resolve_api_key_b_def rerun_fields ..
  from a b show ?thesis by blast
qed

lemma main_demo_stdout:
  assumes "lx_import w = None"
      and "lx_extract w = (\<lambda>env args. Inr (Extractions [demo_half, demo_seven, demo_none]))"
  shows "stdout (main w demo_config) =
           success_output w ''Ada met Alan'' (Extractions [demo_half, demo_seven, demo_none])"
proof -
  have "main w demo_config = invoke_library w demo_config ''Ada met Alan''"
    by (simp add: main_def demo_check demo_resolve and_then_def)
  then show ?thesis
    unfolding invoke_library_def demo_key demo_call
    by (simp add: truthy_def assms Let_def)
qed

lemma visualization_file_kept:
  "jget (drop_time (success_output w t (Extractions (x # xs)))) ''visualization_file'' =
     Some (JStr (tmp_jsonl_name w))"
  by (simp add: success_output_def drop_time_def jget_def in_metadata_def Let_def fold_gather)

text \<open>
  Claim C2 allows two envelopes to differ in the elapsed-time field only. Two runs of
  Runner A on the demo configuration, the second with other clock readings and other
  temporary names, return the same extractions, and their envelopes without
  \<open>processingTime\<close> still differ: in \<open>visualization_file\<close>.
\<close>

theorem envelopes_differ_counterexample:
  "second_run = demo_world\<lparr>clock_start := 200, clock_end := 205,
                  tmp_pdf_name := ''/tmp/tmp3.pdf'', tmp_jsonl_name := ''/tmp/tmp4.jsonl''\<rparr> \<and>
   jget (drop_time (stdout (main demo_world demo_config))) ''visualization_file'' =
     Some (JStr ''/tmp/tmp2.jsonl'') \<and>
   jget (drop_time (stdout (main second_run demo_config))) ''visualization_file'' =
     Some (JStr ''/tmp/tmp4.jsonl'') \<and>
   drop_time (stdout (main demo_world demo_config)) \<noteq>
   drop_time (stdout (main second_run demo_config))"
proof -
  have d: "stdout (main demo_world demo_config) =
             success_output demo_world ''Ada met Alan''
               (Extractions [demo_half, demo_seven, demo_none])"
    by (rule main_demo_stdout) (simp_all add: demo_world_def)
  have s: "stdout (main second_run demo_config) =
             success_output second_run ''Ada met Alan''
               (Extractions [demo_half, demo_seven, demo_none])"
    by (rule main_demo_stdout) (simp_all add: second_run_def rerun_def demo_world_def)
  have v1: "jget (drop_time (stdout (main demo_world demo_config))) ''visualization_file'' =
              Some (JStr ''/tmp/tmp2.jsonl'')"
    unfolding d visualization_file_kept by (simp add: demo_world_def)
  have v2: "jget (drop_time (stdout (main second_run demo_config))) ''visualization_file'' =
              Some (JStr ''/tmp/tmp4.jsonl'')"
    unfolding s visualization_file_kept by (simp add: second_run_def rerun_def)
  have "drop_time (stdout (main demo_world demo_config)) \<noteq>
        drop_time (stdout (main second_run demo_config))"
  proof
    assume "drop_time (stdout (main demo_world demo_config)) =
            drop_time (stdout (main second_run demo_config))"
    then have "jget (drop_time (stdout (main demo_world demo_config))) ''visualization_file'' =
               jget (drop_time (stdout (main second_run demo_config))) ''visualization_file''"
      by simp
    then show False unfolding v1 v2 by simp
  qed
  then show ?thesis
    using v1 v2 by (simp add: second_run_def rerun_def)
qed

theorem envelopes_repeatable_witness:
  "suffix_lower demo_world (tmp_pdf_name demo_world) = ''.pdf'' \<and>
   suffix_lower demo_world ''/tmp/tmp3.pdf'' = ''.pdf'' \<and>
   drop_time_and_file (stdout (main second_run demo_config)) =
     drop_time_and_file (stdout (main demo_world demo_config)) \<and>
   exit_code (main second_run demo_config) = 0 \<and>
   lx_calls (main second_run demo_config) = [([''GEMINI_API_KEY'' \<mapsto> ''secret''], demo_args)] \<and>
   main_b second_run ''config.json'' = main_b demo_world ''config.json''"
proof -
  have t: "suffix_lower demo_world (tmp_pdf_name demo_world) = ''.pdf''"
    by (simp add: demo_world_def)
  have n: "suffix_lower demo_world ''/tmp/tmp3.pdf'' = ''.pdf''"
    by (simp add: demo_world_def)
  show ?thesis
    using t n
      envelopes_repeatable [OF t n, of 200 205 "''/tmp/tmp4.jsonl''" demo_config "''config.json''"]
    unfolding second_run_def by (simp add: demo_main)
qed

end
